theory Spec2Isabelle
  imports Main "HOL-Library.AList"
begin

section \<open>The browser environment\<close>

text \<open>
  A JavaScript string is modelled as a \<^typ>\<open>string\<close>: a list of code units, here those
  below 256. A string is truthy exactly when it is not empty; \<open>null\<close> and \<open>undefined\<close>
  are the value \<open>None\<close> of an option type.

  \<open>localStorage\<close> is a map from keys to strings: \<open>getItem\<close> returns \<open>null\<close> for a
  missing key, \<open>setItem\<close> stores, \<open>removeItem\<close> deletes.
\<close>

type_synonym storage = "string \<rightharpoonup> string"

definition getItem :: "storage \<Rightarrow> string \<Rightarrow> string option" where
  "getItem st k = st k"

definition setItem :: "storage \<Rightarrow> string \<Rightarrow> string \<Rightarrow> storage" where
  "setItem st k v = st(k \<mapsto> v)"

definition removeItem :: "storage \<Rightarrow> string \<Rightarrow> storage" where
  "removeItem st k = st(k := None)"

text \<open>Truthiness of a value that is \<open>null\<close> or a string (\<open>!!v\<close>, \<open>if (v)\<close>).\<close>

definition truthy :: "string option \<Rightarrow> bool" where
  "truthy v = (case v of None \<Rightarrow> False | Some s \<Rightarrow> s \<noteq> [])"

datatype http_method = GET | POST | PUT | DELETE

text \<open>
  A request as the axios instance sends it: method, path under the base address, query
  parameters, JSON body (an object of string fields, in key order) and the headers the
  request interceptor added.
\<close>

record request =
  req_method :: http_method
  req_url :: string
  req_params :: "(string \<times> string) list"
  req_data :: "(string \<times> string) list"
  req_headers :: "(string \<times> string) list"

text \<open>
  The error axios rejects with. \<open>error.response\<close> is missing on a network failure;
  \<open>error.response.data\<close> and its \<open>message\<close> field may each be missing.
\<close>

record error_data =
  message :: "string option"

record error_response =
  status :: nat
  data :: "error_data option"

record axios_error =
  response :: "error_response option"

section \<open>The session store (AuthProvider)\<close>

text \<open>
  The provider's state is \<open>user\<close>, \<open>token\<close> and \<open>loading\<close>, initially \<open>null\<close>,
  \<open>null\<close> and \<open>true\<close>. The user record is opaque to the store, so its type is a
  parameter, and so are \<open>JSON.stringify\<close> and \<open>JSON.parse\<close> on it.
\<close>

record 'u auth_state =
  auth_user :: "'u option"
  auth_token :: "string option"
  auth_loading :: bool

text \<open>
  What the store and the views act on: the provider's state, \<open>localStorage\<close>,
  \<open>window.location.href\<close>, the router's current path and the requests sent so far.
\<close>

record 'u world =
  w_auth :: "'u auth_state"
  w_storage :: storage
  w_href :: string
  w_route :: string
  w_sent :: "request list"

datatype js_error = SyntaxError | TypeError

definition AuthProvider_initial :: "'u auth_state" where
  "AuthProvider_initial = \<lparr>auth_user = None, auth_token = None, auth_loading = True\<rparr>"

text \<open>
  The mount effect. \<open>parse\<close> is \<open>JSON.parse\<close>: it throws (\<open>Inl\<close>) or returns \<open>null\<close>
  (\<open>Inr None\<close>) or a user record.
\<close>

definition AuthProvider_mount ::
  "(string \<Rightarrow> js_error + 'u option) \<Rightarrow> 'u world \<Rightarrow> js_error + 'u world" where
  "AuthProvider_mount parse w =
     (let storedToken = getItem (w_storage w) ''token'';
          storedUser = getItem (w_storage w) ''user'';
          done = Inr (w\<lparr>w_auth := (w_auth w)\<lparr>auth_loading := False\<rparr>\<rparr>)
      in case storedUser of
           None \<Rightarrow> done
         | Some su \<Rightarrow>
             if truthy storedToken \<and> truthy storedUser then
               (case parse su of
                  Inl e \<Rightarrow> Inl e
                | Inr u \<Rightarrow>
                    Inr (w\<lparr>w_auth := (w_auth w)\<lparr>auth_token := storedToken, auth_user := u,
                                                  auth_loading := False\<rparr>\<rparr>))
             else done)"

definition login :: "('u \<Rightarrow> string) \<Rightarrow> string \<Rightarrow> 'u \<Rightarrow> 'u world \<Rightarrow> 'u world" where
  "login stringify tok userData w =
     w\<lparr>w_auth := (w_auth w)\<lparr>auth_token := Some tok, auth_user := Some userData\<rparr>,
       w_storage := setItem (setItem (w_storage w) ''token'' tok) ''user'' (stringify userData)\<rparr>"

definition logout :: "'u world \<Rightarrow> 'u world" where
  "logout w =
     w\<lparr>w_auth := (w_auth w)\<lparr>auth_token := None, auth_user := None\<rparr>,
       w_storage := removeItem (removeItem (w_storage w) ''token'') ''user''\<rparr>"

definition updateUser :: "('u \<Rightarrow> string) \<Rightarrow> 'u \<Rightarrow> 'u world \<Rightarrow> 'u world" where
  "updateUser stringify userData w =
     w\<lparr>w_auth := (w_auth w)\<lparr>auth_user := Some userData\<rparr>,
       w_storage := setItem (w_storage w) ''user'' (stringify userData)\<rparr>"

text \<open>\<open>isAuthenticated: !!token\<close>.\<close>

definition isAuthenticated :: "'u world \<Rightarrow> bool" where
  "isAuthenticated w = truthy (auth_token (w_auth w))"

text \<open>
  The states the store can be in. \<open>ok0\<close> says which contents of \<open>localStorage\<close> the
  application may start from, \<open>tok_ok\<close> which tokens \<open>login\<close> is called with and
  \<open>guard\<close> in which states \<open>updateUser\<close> is called; the store itself checks none of
  them.
\<close>

inductive reach ::
  "(storage \<Rightarrow> bool) \<Rightarrow> (string \<Rightarrow> bool) \<Rightarrow> ('u world \<Rightarrow> bool) \<Rightarrow> ('u \<Rightarrow> string) \<Rightarrow>
   (string \<Rightarrow> js_error + 'u option) \<Rightarrow> 'u world \<Rightarrow> bool"
  for ok0 :: "storage \<Rightarrow> bool" and tok_ok :: "string \<Rightarrow> bool" and guard :: "'u world \<Rightarrow> bool"
    and stringify :: "'u \<Rightarrow> string" and parse :: "string \<Rightarrow> js_error + 'u option"
where
  reach_initial: "ok0 (w_storage w) \<Longrightarrow> w_auth w = AuthProvider_initial \<Longrightarrow>
      reach ok0 tok_ok guard stringify parse w"
| reach_mount: "ok0 (w_storage w) \<Longrightarrow> w_auth w = AuthProvider_initial \<Longrightarrow>
      AuthProvider_mount parse w = Inr w' \<Longrightarrow> reach ok0 tok_ok guard stringify parse w'"
| reach_login: "reach ok0 tok_ok guard stringify parse w \<Longrightarrow> tok_ok tok \<Longrightarrow>
      reach ok0 tok_ok guard stringify parse (login stringify tok userData w)"
| reach_logout: "reach ok0 tok_ok guard stringify parse w \<Longrightarrow>
      reach ok0 tok_ok guard stringify parse (logout w)"
| reach_updateUser: "reach ok0 tok_ok guard stringify parse w \<Longrightarrow> guard w \<Longrightarrow>
      reach ok0 tok_ok guard stringify parse (updateUser stringify userData w)"

text \<open>
  No restriction: any storage to start from, \<open>login\<close> called with any token,
  \<open>updateUser\<close> called in any state.
\<close>

definition unrestricted :: "'a \<Rightarrow> bool" where
  "unrestricted x = True"

text \<open>
  No partial session. A token is present when it is truthy, the test the store and the
  request interceptor apply to it (\<open>!!token\<close>, \<open>storedToken && storedUser\<close>,
  \<open>if (token)\<close>): a non-empty string. In memory the user is a record or \<open>null\<close>; in
  \<open>localStorage\<close> the user is present when the stored string is truthy.
\<close>

definition no_partial_session :: "'u world \<Rightarrow> bool" where
  "no_partial_session w =
     (truthy (auth_token (w_auth w)) = (auth_user (w_auth w) \<noteq> None) \<and>
      truthy (getItem (w_storage w) ''token'') = truthy (getItem (w_storage w) ''user''))"

text \<open>
  Storage as the store itself leaves it: no token and no user, or a token and what
  \<open>JSON.stringify\<close> made of a user record.
\<close>

definition written_by_store :: "('u \<Rightarrow> string) \<Rightarrow> storage \<Rightarrow> bool" where
  "written_by_store stringify st =
     (if truthy (getItem st ''token'') then (\<exists>u. getItem st ''user'' = Some (stringify u))
      else \<not> truthy (getItem st ''user''))"

definition non_empty :: "string \<Rightarrow> bool" where
  "non_empty tok = (tok \<noteq> [])"

section \<open>The HTTP client wrapper\<close>

text \<open>The request interceptor: attach the stored token as a bearer credential.\<close>

definition request_interceptor :: "storage \<Rightarrow> request \<Rightarrow> request" where
  "request_interceptor st config =
     (case getItem st ''token'' of
        None \<Rightarrow> config
      | Some token \<Rightarrow>
          if token \<noteq> [] then
            config\<lparr>req_headers :=
              AList.update ''Authorization'' (''Bearer '' @ token) (req_headers config)\<rparr>
          else config)"

text \<open>
  The response interceptor's error handler, before it rejects with the same error: on
  status 401 drop the session from storage and go to the login page.
\<close>

definition response_rejected :: "axios_error \<Rightarrow> 'u world \<Rightarrow> 'u world" where
  "response_rejected error w =
     (case response error of
        None \<Rightarrow> w
      | Some r \<Rightarrow>
          if status r = 401 then
            w\<lparr>w_storage := removeItem (removeItem (w_storage w) ''token'') ''user'',
              w_href := ''/login''\<rparr>
          else w)"

text \<open>The errors that handler acts on: those carrying a response of status 401.\<close>

definition unauthorized :: "axios_error \<Rightarrow> bool" where
  "unauthorized error = (case response error of None \<Rightarrow> False | Some r \<Rightarrow> status r = 401)"

text \<open>
  One call through the instance. The transport \<open>net\<close> (axios and the server behind it)
  resolves with the response data or rejects with an error; a response whose status is
  outside 2xx is a rejection carrying that response.
\<close>

definition api_send ::
  "(request \<Rightarrow> axios_error + 'd) \<Rightarrow> request \<Rightarrow> 'u world \<Rightarrow> (axios_error + 'd) \<times> 'u world" where
  "api_send net config w =
     (let req = request_interceptor (w_storage w) config;
          w1 = w\<lparr>w_sent := w_sent w @ [req]\<rparr>
      in case net req of
           Inr d \<Rightarrow> (Inr d, w1)
         | Inl error \<Rightarrow> (Inl error, response_rejected error w1))"

definition base_config :: "http_method \<Rightarrow> string \<Rightarrow> request" where
  "base_config m url =
     \<lparr>req_method = m, req_url = url, req_params = [], req_data = [],
      req_headers = [(''Content-Type'', ''application/json'')]\<rparr>"

definition authAPI_signup ::
  "(request \<Rightarrow> axios_error + 'd) \<Rightarrow> (string \<times> string) list \<Rightarrow> 'u world \<Rightarrow>
   (axios_error + 'd) \<times> 'u world" where
  "authAPI_signup net userData = api_send net ((base_config POST ''/auth/signup'')\<lparr>req_data := userData\<rparr>)"

definition authAPI_login ::
  "(request \<Rightarrow> axios_error + 'd) \<Rightarrow> (string \<times> string) list \<Rightarrow> 'u world \<Rightarrow>
   (axios_error + 'd) \<times> 'u world" where
  "authAPI_login net credentials = api_send net ((base_config POST ''/auth/login'')\<lparr>req_data := credentials\<rparr>)"

definition tasksAPI_getAll ::
  "(request \<Rightarrow> axios_error + 'd) \<Rightarrow> (string \<times> string) list \<Rightarrow> 'u world \<Rightarrow>
   (axios_error + 'd) \<times> 'u world" where
  "tasksAPI_getAll net params = api_send net ((base_config GET ''/tasks'')\<lparr>req_params := params\<rparr>)"

definition tasksAPI_delete ::
  "(request \<Rightarrow> axios_error + 'd) \<Rightarrow> string \<Rightarrow> 'u world \<Rightarrow> (axios_error + 'd) \<times> 'u world" where
  "tasksAPI_delete net task_id = api_send net (base_config DELETE (''/tasks/'' @ task_id))"

text \<open>\<open>error.response?.data?.message || fallback\<close>.\<close>

definition error_message :: "axios_error \<Rightarrow> string \<Rightarrow> string" where
  "error_message error fallback =
     (case response error of
        None \<Rightarrow> fallback
      | Some r \<Rightarrow>
          (case data r of
             None \<Rightarrow> fallback
           | Some d \<Rightarrow>
               (case message d of
                  None \<Rightarrow> fallback
                | Some m \<Rightarrow> if m \<noteq> [] then m else fallback)))"

section \<open>Form validation\<close>

text \<open>
  The white space of \<open>String.prototype.trim\<close> and of the regular expression class
  \<open>\s\<close>, among the code units below 256: tab, line feed, vertical tab, form feed,
  carriage return, space and no-break space.
\<close>

definition is_space :: "char \<Rightarrow> bool" where
  "is_space c = (c \<in> set [CHR 0x09, CHR 0x0A, CHR 0x0B, CHR 0x0C, CHR 0x0D, CHR 0x20, CHR 0xA0])"

definition trim :: "string \<Rightarrow> string" where
  "trim s = rev (dropWhile is_space (rev (dropWhile is_space s)))"

text \<open>
  \<open>/\S+@\S+\.\S+/.test(s)\<close>: somewhere in \<open>s\<close> there is a run of non-space characters,
  an \<open>@\<close>, a run of non-space characters, a dot and a run of non-space characters, each
  run of at least one character. \<open>rx_domain\<close> matches \<open>\S*\.\S\<close> at the head of its
  argument, \<open>rx_after_at\<close> matches \<open>\S+\.\S\<close> there, and \<open>email_regex_test\<close> looks for
  \<open>\S@\<close> followed by such a match.
\<close>

fun rx_domain :: "string \<Rightarrow> bool" where
  "rx_domain [] = False"
| "rx_domain [c] = False"
| "rx_domain (c # d # cs) =
     (if c = CHR ''.'' \<and> \<not> is_space d then True
      else if is_space c then False
      else rx_domain (d # cs))"

fun rx_after_at :: "string \<Rightarrow> bool" where
  "rx_after_at [] = False"
| "rx_after_at (c # cs) = (if is_space c then False else rx_domain cs)"

fun email_regex_test :: "string \<Rightarrow> bool" where
  "email_regex_test (a # b # cs) =
     (if \<not> is_space a \<and> b = CHR ''@'' \<and> rx_after_at cs then True
      else email_regex_test (b # cs))"
| "email_regex_test _ = False"

text \<open>
  What the pattern says, stated without a matcher: the string contains three runs of
  non-space characters, none empty, the first two separated by \<open>@\<close> and the last two
  by a dot.
\<close>

definition matches_email_pattern :: "string \<Rightarrow> bool" where
  "matches_email_pattern s =
     (\<exists>pre a b c post.
        s = pre @ a @ ''@'' @ b @ ''.'' @ c @ post \<and> a \<noteq> [] \<and> b \<noteq> [] \<and> c \<noteq> [] \<and>
        (\<forall>x\<in>set (a @ b @ c). \<not> is_space x))"

text \<open>
  The shape the specification asks of an email, \<open>local@domain.tld\<close>, read as the shape
  of the whole value: three non-empty parts around an \<open>@\<close> and a dot, and no white
  space anywhere.
\<close>

definition spec_email_shape :: "string \<Rightarrow> bool" where
  "spec_email_shape s =
     (\<exists>local domain tld.
        s = local @ ''@'' @ domain @ ''.'' @ tld \<and> local \<noteq> [] \<and> domain \<noteq> [] \<and> tld \<noteq> [] \<and>
        (\<forall>x\<in>set s. \<not> is_space x))"

section \<open>The login page\<close>

record login_formData =
  login_email :: string
  login_password :: string

record login_view =
  login_form :: login_formData
  login_errors :: "(string \<times> string) list"
  login_loading :: bool
  login_apiError :: string

text \<open>
  \<open>validate\<close> builds the object \<open>newErrors\<close> (here the list of its entries in insertion
  order); the form is valid when it has no key.

  A handler is modelled from the event to the settling of its promise, as one step: it
  takes the view and the world before the event and a transport that answers its
  request, and returns the view and the world afterwards. The state while the request is
  in flight (\<open>loading\<close> true) is not a result of the model.
\<close>

definition Login_validate :: "login_formData \<Rightarrow> (string \<times> string) list" where
  "Login_validate formData =
     (if trim (login_email formData) = [] then [(''email'', ''Email is required'')]
      else if \<not> email_regex_test (login_email formData) then [(''email'', ''Email is invalid'')]
      else []) @
     (if login_password formData = [] then [(''password'', ''Password is required'')]
      else if length (login_password formData) < 6 then
        [(''password'', ''Password must be at least 6 characters'')]
      else [])"

definition login_entries :: "login_formData \<Rightarrow> (string \<times> string) list" where
  "login_entries formData =
     [(''email'', login_email formData), (''password'', login_password formData)]"

definition Login_handleSubmit ::
  "('u \<Rightarrow> string) \<Rightarrow> (request \<Rightarrow> axios_error + string \<times> 'u) \<Rightarrow>
   login_view \<times> 'u world \<Rightarrow> login_view \<times> 'u world" where
  "Login_handleSubmit stringify net vw =
     (let v = fst vw; w = snd vw;
          newErrors = Login_validate (login_form v);
          v1 = v\<lparr>login_apiError := [], login_errors := newErrors\<rparr>
      in if newErrors \<noteq> [] then (v1, w)
         else
           (case authAPI_login net (login_entries (login_form v1)) w of
              (Inr (tok, user), w1) \<Rightarrow>
                (v1\<lparr>login_loading := False\<rparr>,
                 (login stringify tok user w1)\<lparr>w_route := ''/dashboard''\<rparr>)
            | (Inl error, w1) \<Rightarrow>
                (v1\<lparr>login_apiError :=
                      error_message error ''Login failed. Please check your credentials.'',
                    login_loading := False\<rparr>, w1)))"

section \<open>The signup page\<close>

record signup_formData =
  signup_name :: string
  signup_email :: string
  signup_password :: string
  signup_confirmPassword :: string

record signup_view =
  signup_form :: signup_formData
  signup_errors :: "(string \<times> string) list"
  signup_loading :: bool
  signup_apiError :: string

definition Signup_validate :: "signup_formData \<Rightarrow> (string \<times> string) list" where
  "Signup_validate formData =
     (if trim (signup_name formData) = [] then [(''name'', ''Name is required'')] else []) @
     (if trim (signup_email formData) = [] then [(''email'', ''Email is required'')]
      else if \<not> email_regex_test (signup_email formData) then [(''email'', ''Email is invalid'')]
      else []) @
     (if signup_password formData = [] then [(''password'', ''Password is required'')]
      else if length (signup_password formData) < 6 then
        [(''password'', ''Password must be at least 6 characters'')]
      else []) @
     (if signup_confirmPassword formData = [] then
        [(''confirmPassword'', ''Please confirm your password'')]
      else if signup_password formData \<noteq> signup_confirmPassword formData then
        [(''confirmPassword'', ''Passwords do not match'')]
      else [])"

definition signup_entries :: "signup_formData \<Rightarrow> (string \<times> string) list" where
  "signup_entries formData =
     [(''name'', signup_name formData), (''email'', signup_email formData),
      (''password'', signup_password formData),
      (''confirmPassword'', signup_confirmPassword formData)]"

text \<open>\<open>const { confirmPassword, ...signupData } = formData\<close>: every entry but that key.\<close>

definition rest_without :: "string \<Rightarrow> (string \<times> string) list \<Rightarrow> (string \<times> string) list" where
  "rest_without k obj = filter (\<lambda>kv. fst kv \<noteq> k) obj"

definition Signup_handleSubmit ::
  "('u \<Rightarrow> string) \<Rightarrow> (request \<Rightarrow> axios_error + string \<times> 'u) \<Rightarrow>
   signup_view \<times> 'u world \<Rightarrow> signup_view \<times> 'u world" where
  "Signup_handleSubmit stringify net vw =
     (let v = fst vw; w = snd vw;
          newErrors = Signup_validate (signup_form v);
          v1 = v\<lparr>signup_apiError := [], signup_errors := newErrors\<rparr>
      in if newErrors \<noteq> [] then (v1, w)
         else
           (let signupData = rest_without ''confirmPassword'' (signup_entries (signup_form v1))
            in case authAPI_signup net signupData w of
                 (Inr (tok, user), w1) \<Rightarrow>
                   (v1\<lparr>signup_loading := False\<rparr>,
                    (login stringify tok user w1)\<lparr>w_route := ''/dashboard''\<rparr>)
               | (Inl error, w1) \<Rightarrow>
                   (v1\<lparr>signup_apiError := error_message error ''Signup failed. Please try again.'',
                       signup_loading := False\<rparr>, w1)))"

section \<open>The tasks view\<close>

record task_formData =
  task_title :: string
  task_description :: string
  task_status :: string

record view_message =
  msg_type :: string
  msg_text :: string

record 't tasks_view =
  tasks :: "'t list"
  loading :: bool
  showModal :: bool
  editingTask :: "'t option"
  searchText :: string
  statusFilter :: string
  formData :: task_formData
  errors :: "(string \<times> string) list"
  view_msg :: view_message

definition Tasks_initial :: "'t tasks_view" where
  "Tasks_initial =
     \<lparr>tasks = [], loading = False, showModal = False, editingTask = None,
      searchText = [], statusFilter = [],
      formData = \<lparr>task_title = [], task_description = [], task_status = ''pending''\<rparr>,
      errors = [], view_msg = \<lparr>msg_type = [], msg_text = []\<rparr>\<rparr>"

text \<open>
  What \<open>response.data\<close> of the list request can be: \<open>null\<close> or \<open>undefined\<close>, an object
  with a \<open>tasks\<close> array, an array itself, or another falsy value (an empty body).
\<close>

datatype 't tasks_data = No_data | Tasks_field "'t list" | Tasks_array "'t list" | Falsy_data

text \<open>The query parameters \<open>fetchTasks\<close> builds: a key only for a non-empty value.\<close>

definition fetchTasks_params :: "string \<Rightarrow> string \<Rightarrow> (string \<times> string) list" where
  "fetchTasks_params search_text status_filter =
     (if search_text \<noteq> [] then [(''search'', search_text)] else []) @
     (if status_filter \<noteq> [] then [(''status'', status_filter)] else [])"

text \<open>
  \<open>fetchTasks\<close>. Reading \<open>response.data.tasks\<close> of a missing \<open>data\<close> throws inside
  the \<open>try\<close> block, so it ends in the \<open>catch\<close> branch with an error that has no
  \<open>response\<close>.
\<close>

definition fetchTasks ::
  "(request \<Rightarrow> axios_error + 't tasks_data) \<Rightarrow> 't tasks_view \<times> 'u world \<Rightarrow>
   't tasks_view \<times> 'u world" where
  "fetchTasks net vw =
     (let v = fst vw; w = snd vw;
          v1 = v\<lparr>loading := True\<rparr>;
          params = fetchTasks_params (searchText v1) (statusFilter v1);
          failed = (\<lambda>text. v1\<lparr>view_msg := \<lparr>msg_type = ''error'', msg_text = text\<rparr>,
                                loading := False\<rparr>)
      in case tasksAPI_getAll net params w of
           (Inr d, w1) \<Rightarrow>
             (case d of
                No_data \<Rightarrow> (failed ''Failed to fetch tasks'', w1)
              | Tasks_field ts \<Rightarrow> (v1\<lparr>tasks := ts, loading := False\<rparr>, w1)
              | Tasks_array ts \<Rightarrow> (v1\<lparr>tasks := ts, loading := False\<rparr>, w1)
              | Falsy_data \<Rightarrow> (v1\<lparr>tasks := [], loading := False\<rparr>, w1))
         | (Inl error, w1) \<Rightarrow> (failed (error_message error ''Failed to fetch tasks''), w1))"

text \<open>
  Instances of \<open>fetchTasks\<close>. Every render creates a function that captures the
  \<open>searchText\<close> and \<open>statusFilter\<close> of that render; \<open>fc_id\<close> is the function's
  identity (the number of the render that created it). \<open>fetchTasks\<close> above is the
  instance applied in the render that created it. An instance called later builds its
  parameters from the values it captured, while its state updates (\<open>setLoading\<close>,
  \<open>setTasks\<close>, \<open>setMessage\<close>) go to the state as it is then.
\<close>

record fetch_closure =
  fc_id :: nat
  fc_search :: string
  fc_status :: string

definition fetchTasks_closure ::
  "(request \<Rightarrow> axios_error + 't tasks_data) \<Rightarrow> fetch_closure \<Rightarrow> 't tasks_view \<times> 'u world \<Rightarrow>
   't tasks_view \<times> 'u world" where
  "fetchTasks_closure net fn vw =
     (let v = fst vw;
          r = fetchTasks net (v\<lparr>searchText := fc_search fn, statusFilter := fc_status fn\<rparr>, snd vw)
      in ((fst r)\<lparr>searchText := searchText v, statusFilter := statusFilter v\<rparr>, snd r))"

text \<open>
  The hooks of the component between renders: what \<open>useCallback\<close> keeps (the
  dependencies \<open>[searchText, statusFilter]\<close> of the render that created the memoised
  function, and that function), what \<open>useEffect\<close> keeps (the dependency \<open>[fetchTasks]\<close>
  it last ran with, by identity), and the number of renders so far.
\<close>

record tasks_hooks =
  callback_memo :: "((string \<times> string) \<times> fetch_closure) option"
  effect_deps :: "nat option"
  renders :: nat

definition hooks_initial :: tasks_hooks where
  "hooks_initial = \<lparr>callback_memo = None, effect_deps = None, renders = 0\<rparr>"

text \<open>
  \<open>useCallback(fn, deps)\<close> returns the memoised function when every dependency is the
  same as in the render that memoised it, and otherwise memoises and returns the function
  this render created.
\<close>

definition useCallback ::
  "fetch_closure \<Rightarrow> string \<times> string \<Rightarrow> tasks_hooks \<Rightarrow> fetch_closure \<times> tasks_hooks" where
  "useCallback created deps h =
     (case callback_memo h of
        None \<Rightarrow> (created, h\<lparr>callback_memo := Some (deps, created)\<rparr>)
      | Some (d, fn) \<Rightarrow>
          if d = deps then (fn, h) else (created, h\<lparr>callback_memo := Some (deps, created)\<rparr>))"

text \<open>
  \<open>useEffect(effect, [dep])\<close> runs the effect after the first render and after a render
  whose dependency is not the one the effect last ran with.
\<close>

definition useEffect_due :: "nat \<Rightarrow> tasks_hooks \<Rightarrow> bool" where
  "useEffect_due dep h = (effect_deps h \<noteq> Some dep)"

text \<open>
  One render of the component followed by its effect,
  \<open>useEffect(() => { fetchTasks(); }, [fetchTasks])\<close>, with \<open>fetchTasks\<close> the result of
  \<open>useCallback(..., [searchText, statusFilter])\<close>.
\<close>

definition Tasks_render ::
  "(request \<Rightarrow> axios_error + 't tasks_data) \<Rightarrow> tasks_hooks \<times> 't tasks_view \<times> 'u world \<Rightarrow>
   tasks_hooks \<times> 't tasks_view \<times> 'u world" where
  "Tasks_render net hvw =
     (let h = fst hvw; v = fst (snd hvw); w = snd (snd hvw);
          created = \<lparr>fc_id = renders h, fc_search = searchText v, fc_status = statusFilter v\<rparr>;
          memo = useCallback created (searchText v, statusFilter v) (h\<lparr>renders := Suc (renders h)\<rparr>);
          fn = fst memo; h1 = snd memo
      in if useEffect_due (fc_id fn) h1 then
           (h1\<lparr>effect_deps := Some (fc_id fn)\<rparr>, fetchTasks_closure net fn (v, w))
         else (h1, v, w))"

definition Tasks_mount ::
  "(request \<Rightarrow> axios_error + 't tasks_data) \<Rightarrow> 'u world \<Rightarrow>
   tasks_hooks \<times> 't tasks_view \<times> 'u world" where
  "Tasks_mount net w = Tasks_render net (hooks_initial, Tasks_initial, w)"

text \<open>
  The two inputs: \<open>onChange={(e) => setSearchText(e.target.value)}\<close> and the same for
  \<open>setStatusFilter\<close>. The setter stores the value and the component renders again.
\<close>

definition searchText_onChange ::
  "(request \<Rightarrow> axios_error + 't tasks_data) \<Rightarrow> string \<Rightarrow>
   tasks_hooks \<times> 't tasks_view \<times> 'u world \<Rightarrow> tasks_hooks \<times> 't tasks_view \<times> 'u world" where
  "searchText_onChange net val hvw =
     Tasks_render net (fst hvw, (fst (snd hvw))\<lparr>searchText := val\<rparr>, snd (snd hvw))"

definition statusFilter_onChange ::
  "(request \<Rightarrow> axios_error + 't tasks_data) \<Rightarrow> string \<Rightarrow>
   tasks_hooks \<times> 't tasks_view \<times> 'u world \<Rightarrow> tasks_hooks \<times> 't tasks_view \<times> 'u world" where
  "statusFilter_onChange net val hvw =
     Tasks_render net (fst hvw, (fst (snd hvw))\<lparr>statusFilter := val\<rparr>, snd (snd hvw))"

text \<open>
  The hooks as a render of the view \<open>v\<close> leaves them: the memoised function was created
  for the values \<open>v\<close> holds, in an earlier render, and the effect has run with it.
\<close>

definition rendered :: "tasks_hooks \<Rightarrow> 't tasks_view \<Rightarrow> bool" where
  "rendered h v =
     (case callback_memo h of
        None \<Rightarrow> False
      | Some (d, fn) \<Rightarrow>
          d = (searchText v, statusFilter v) \<and> fc_search fn = searchText v \<and>
          fc_status fn = statusFilter v \<and> fc_id fn < renders h \<and>
          effect_deps h = Some (fc_id fn))"

text \<open>
  \<open>handleDelete\<close>. \<open>confirmed\<close> is the answer of \<open>window.confirm\<close>; \<open>net_delete\<close> and
  \<open>net\<close> answer the delete request and the list request that follows it. The source
  calls \<open>fetchTasks()\<close> without awaiting it, after the awaited delete: the list request
  leaves at that call, \<open>finally\<close> clears \<open>loading\<close>, and the list response is handled
  later; the view after both is the one computed here.
\<close>

definition handleDelete ::
  "bool \<Rightarrow> (request \<Rightarrow> axios_error + unit) \<Rightarrow> (request \<Rightarrow> axios_error + 't tasks_data) \<Rightarrow>
   string \<Rightarrow> 't tasks_view \<times> 'u world \<Rightarrow> 't tasks_view \<times> 'u world" where
  "handleDelete confirmed net_delete net task_id vw =
     (if \<not> confirmed then vw
      else
        (let v1 = (fst vw)\<lparr>loading := True\<rparr>
         in case tasksAPI_delete net_delete task_id (snd vw) of
              (Inr _, w1) \<Rightarrow>
                (let v2 = v1\<lparr>view_msg := \<lparr>msg_type = ''success'',
                                          msg_text = ''Task deleted successfully!''\<rparr>\<rparr>;
                     vw3 = fetchTasks net (v2, w1)
                 in ((fst vw3)\<lparr>loading := False\<rparr>, snd vw3))
            | (Inl error, w1) \<Rightarrow>
                (v1\<lparr>view_msg := \<lparr>msg_type = ''error'',
                                 msg_text = error_message error ''Failed to delete task''\<rparr>,
                    loading := False\<rparr>, w1)))"

text \<open>
  The two requests of the tasks view as they leave the instance: the list request for a
  search text and a status filter, and the delete request for a task id.
\<close>

definition list_request :: "storage \<Rightarrow> string \<Rightarrow> string \<Rightarrow> request" where
  "list_request st s f =
     request_interceptor st ((base_config GET ''/tasks'')\<lparr>req_params := fetchTasks_params s f\<rparr>)"

definition delete_request :: "storage \<Rightarrow> string \<Rightarrow> request" where
  "delete_request st task_id = request_interceptor st (base_config DELETE (''/tasks/'' @ task_id))"

text \<open>The login request as it leaves the instance.\<close>

definition login_request :: "storage \<Rightarrow> login_formData \<Rightarrow> request" where
  "login_request st f =
     request_interceptor st ((base_config POST ''/auth/login'')\<lparr>req_data := login_entries f\<rparr>)"

section \<open>Sample data\<close>

text \<open>
  Concrete worlds, errors and a concrete user type (a user is its name, serialised as a
  quoted string) on which the theorems below are instantiated.
\<close>

definition quote :: "string \<Rightarrow> string" where
  "quote u = CHR 0x22 # u @ [CHR 0x22]"

definition unquote :: "string \<Rightarrow> js_error + string option" where
  "unquote s =
     (if s = ''null'' then Inr None
      else if 2 \<le> length s \<and> hd s = CHR 0x22 \<and> last s = CHR 0x22 then Inr (Some (butlast (tl s)))
      else Inl SyntaxError)"

definition fresh_world :: "string world" where
  "fresh_world =
     \<lparr>w_auth = AuthProvider_initial, w_storage = Map.empty, w_href = ''/login'',
      w_route = ''/login'', w_sent = []\<rparr>"

definition token_only_world :: "string world" where
  "token_only_world = fresh_world\<lparr>w_storage := [''token'' \<mapsto> ''t0'']\<rparr>"

definition stored_world :: "string world" where
  "stored_world = fresh_world\<lparr>w_storage := [''token'' \<mapsto> ''t0'', ''user'' \<mapsto> quote ''ann'']\<rparr>"

definition restored_world :: "string world" where
  "restored_world =
     stored_world\<lparr>w_auth := \<lparr>auth_user = Some ''ann'', auth_token = Some ''t0'',
                              auth_loading = False\<rparr>\<rparr>"

definition sample_world :: "string world" where
  "sample_world =
     \<lparr>w_auth = \<lparr>auth_user = Some ''ann'', auth_token = Some ''t0'', auth_loading = False\<rparr>,
      w_storage = [''token'' \<mapsto> ''t0'', ''user'' \<mapsto> quote ''ann'', ''theme'' \<mapsto> ''dark''],
      w_href = ''/dashboard'', w_route = ''/dashboard'', w_sent = []\<rparr>"

definition status_error :: "nat \<Rightarrow> string option \<Rightarrow> axios_error" where
  "status_error n m = \<lparr>response = Some \<lparr>status = n, data = Some \<lparr>message = m\<rparr>\<rparr>\<rparr>"

definition network_error :: axios_error where
  "network_error = \<lparr>response = None\<rparr>"

text \<open>A server that accepts every signup and login, views as first rendered, and forms.\<close>

definition accept_auth :: "request \<Rightarrow> axios_error + string \<times> string" where
  "accept_auth r = Inr (''t1'', ''ann'')"

definition login_view0 :: "login_formData \<Rightarrow> login_view" where
  "login_view0 f = \<lparr>login_form = f, login_errors = [], login_loading = False, login_apiError = []\<rparr>"

definition signup_view0 :: "signup_formData \<Rightarrow> signup_view" where
  "signup_view0 f = \<lparr>signup_form = f, signup_errors = [], signup_loading = False, signup_apiError = []\<rparr>"


definition good_login :: login_formData where
  "good_login = \<lparr>login_email = ''ann@example.com'', login_password = ''secret1''\<rparr>"



definition good_signup :: signup_formData where
  "good_signup = \<lparr>signup_name = ''Ann'', signup_email = ''ann@example.com'',
     signup_password = ''secret1'', signup_confirmPassword = ''secret1''\<rparr>"

definition mismatch_signup :: signup_formData where
  "mismatch_signup = good_signup\<lparr>signup_confirmPassword := ''secret2''\<rparr>"

definition unconfirmed_signup :: signup_formData where
  "unconfirmed_signup = good_signup\<lparr>signup_confirmPassword := []\<rparr>"

definition short_signup :: signup_formData where
  "short_signup = good_signup\<lparr>signup_password := ''abc12'', signup_confirmPassword := ''abc12''\<rparr>"

text \<open>An instance of \<open>fetchTasks\<close> created while the search text was \<open>home\<close>.\<close>

definition sample_closure :: fetch_closure where
  "sample_closure = \<lparr>fc_id = 0, fc_search = ''home'', fc_status = []\<rparr>"

text \<open>Servers that accept or reject the list and the delete request, and a view holding a list.\<close>

definition accept_tasks :: "request \<Rightarrow> axios_error + string tasks_data" where
  "accept_tasks r = Inr (Tasks_field [''Buy milk''])"

definition reject_tasks :: "request \<Rightarrow> axios_error + string tasks_data" where
  "reject_tasks r = Inl (status_error 500 (Some ''Database is down''))"

definition accept_delete :: "request \<Rightarrow> axios_error + unit" where
  "accept_delete r = Inr ()"

definition reject_delete :: "request \<Rightarrow> axios_error + unit" where
  "reject_delete r = Inl (status_error 500 None)"

definition listed_view :: "string tasks_view" where
  "listed_view = Tasks_initial\<lparr>tasks := [''Buy milk'', ''Call home''], searchText := ''home''\<rparr>"

section \<open>The HTTP client wrapper: rejected responses\<close>

text \<open>
  Claim C1. When the transport rejects a call with an error, the wrapper rejects the call
  with that same error. If the error carries a response of status 401, the wrapper has
  removed the keys \<open>token\<close> and \<open>user\<close> from \<open>localStorage\<close> (and nothing else) and set
  the location to \<open>/login\<close>; for every other error, with or without a response,
  \<open>localStorage\<close> and the location are as before. The provider's state in memory and
  the router's path are never touched.
\<close>

theorem api_send_rejected:
  assumes "net (request_interceptor (w_storage w) config) = Inl error"
  shows "fst (api_send net config w) = Inl error \<and>
         w_auth (snd (api_send net config w)) = w_auth w \<and>
         w_route (snd (api_send net config w)) = w_route w \<and>
         (if unauthorized error then
            w_storage (snd (api_send net config w)) =
              (w_storage w)(''token'' := None, ''user'' := None) \<and>
            w_href (snd (api_send net config w)) = ''/login''
          else
            w_storage (snd (api_send net config w)) = w_storage w \<and>
            w_href (snd (api_send net config w)) = w_href w)"
  using assms
  by (simp add: api_send_def response_rejected_def unauthorized_def removeItem_def Let_def
      split: option.splits)

theorem api_send_rejected_witness:
  "fst (api_send (\<lambda>r. Inl (status_error 401 None) :: axios_error + unit)
          (base_config GET ''/profile'') sample_world) = Inl (status_error 401 None) \<and>
   w_storage (snd (api_send (\<lambda>r. Inl (status_error 401 None) :: axios_error + unit)
          (base_config GET ''/profile'') sample_world)) ''token'' = None \<and>
   w_storage (snd (api_send (\<lambda>r. Inl (status_error 401 None) :: axios_error + unit)
          (base_config GET ''/profile'') sample_world)) ''user'' = None \<and>
   w_storage (snd (api_send (\<lambda>r. Inl (status_error 401 None) :: axios_error + unit)
          (base_config GET ''/profile'') sample_world)) ''theme'' = Some ''dark'' \<and>
   w_href (snd (api_send (\<lambda>r. Inl (status_error 401 None) :: axios_error + unit)
          (base_config GET ''/profile'') sample_world)) = ''/login'' \<and>
   fst (api_send (\<lambda>r. Inl (status_error 500 None) :: axios_error + unit)
          (base_config GET ''/profile'') sample_world) = Inl (status_error 500 None) \<and>
   w_storage (snd (api_send (\<lambda>r. Inl (status_error 500 None) :: axios_error + unit)
          (base_config GET ''/profile'') sample_world)) = w_storage sample_world \<and>
   w_href (snd (api_send (\<lambda>r. Inl network_error :: axios_error + unit)
          (base_config GET ''/profile'') sample_world)) = ''/dashboard''"
  using
    api_send_rejected [of "\<lambda>r. Inl (status_error 401 None) :: axios_error + unit" sample_world
      "base_config GET ''/profile''" "status_error 401 None"]
    api_send_rejected [of "\<lambda>r. Inl (status_error 500 None) :: axios_error + unit" sample_world
      "base_config GET ''/profile''" "status_error 500 None"]
    api_send_rejected [of "\<lambda>r. Inl network_error :: axios_error + unit" sample_world
      "base_config GET ''/profile''" network_error]
  by (simp add: unauthorized_def status_error_def network_error_def sample_world_def)

section \<open>The HTTP client wrapper: the bearer credential\<close>

text \<open>
  The request interceptor sets the \<open>Authorization\<close> header to \<open>Bearer\<close> and the
  stored token when \<open>localStorage\<close> holds a non-empty token, and leaves the headers
  alone otherwise; method, path, query parameters and body are never changed.
\<close>

theorem request_interceptor_bearer:
  "map_of (req_headers (request_interceptor st config)) ''Authorization'' =
     (case getItem st ''token'' of
        None \<Rightarrow> map_of (req_headers config) ''Authorization''
      | Some token \<Rightarrow>
          if token = [] then map_of (req_headers config) ''Authorization''
          else Some (''Bearer '' @ token)) \<and>
   req_method (request_interceptor st config) = req_method config \<and>
   req_url (request_interceptor st config) = req_url config \<and>
   req_params (request_interceptor st config) = req_params config \<and>
   req_data (request_interceptor st config) = req_data config"
  by (simp add: request_interceptor_def getItem_def update_conv' split: option.splits)

theorem request_interceptor_bearer_witness:
  "req_headers (request_interceptor (w_storage sample_world) (base_config GET ''/profile'')) =
     [(''Content-Type'', ''application/json''), (''Authorization'', ''Bearer t0'')] \<and>
   map_of (req_headers (request_interceptor (w_storage fresh_world) (base_config GET ''/profile'')))
     ''Authorization'' = None"
  using request_interceptor_bearer [of "w_storage sample_world" "base_config GET ''/profile''"]
    request_interceptor_bearer [of "w_storage fresh_world" "base_config GET ''/profile''"]
  by (simp add: request_interceptor_def sample_world_def fresh_world_def base_config_def
      getItem_def truthy_def)

section \<open>The session store: no partial session\<close>

lemma unquote_quote: "unquote (quote u) = Inr (Some u)"
  by (simp add: unquote_def quote_def)

lemma quote_not_Nil: "quote u \<noteq> []"
  by (simp add: quote_def)

text \<open>
  The invariant that goes through the induction: no partial session, and while the
  session is authenticated the token in storage is truthy too.
\<close>

lemma session_invariant:
  assumes r: "reach (written_by_store stringify) non_empty isAuthenticated stringify parse w"
    and rt: "\<And>u. parse (stringify u) = Inr (Some u)"
    and ne: "\<And>u. stringify u \<noteq> []"
  shows "no_partial_session w \<and>
         (isAuthenticated w \<longrightarrow> truthy (getItem (w_storage w) ''token''))"
  using r
proof (induction rule: reach.induct)
  case (reach_initial w)
  then show ?case
    using ne ne [THEN not_sym]
    by (auto simp: no_partial_session_def isAuthenticated_def written_by_store_def
        AuthProvider_initial_def truthy_def getItem_def split: option.splits if_splits)
next
  case (reach_mount w w')
  then show ?case
    using rt ne ne [THEN not_sym]
    by (auto simp: no_partial_session_def isAuthenticated_def written_by_store_def
        AuthProvider_initial_def AuthProvider_mount_def getItem_def truthy_def Let_def
        split: option.splits if_splits sum.splits)
next
  case (reach_login w tok userData)
  then show ?case
    using ne
    by (simp add: no_partial_session_def isAuthenticated_def login_def setItem_def getItem_def
        truthy_def non_empty_def)
next
  case (reach_logout w)
  then show ?case
    by (simp add: no_partial_session_def isAuthenticated_def logout_def removeItem_def
        getItem_def truthy_def)
next
  case (reach_updateUser w userData)
  then show ?case
    using ne
    by (auto simp: no_partial_session_def isAuthenticated_def updateUser_def setItem_def
        getItem_def truthy_def split: option.splits)
qed

text \<open>
  Claim C2, as stated, fails, in three ways. \<open>updateUser\<close> writes the user and leaves
  the token alone, so called on the logged-out store it leaves a user without a token, in
  memory and in \<open>localStorage\<close>. A store mounted on a \<open>localStorage\<close> that holds only a
  token restores nothing and keeps that lone token there. And \<open>login\<close> called with the
  empty token stores a user beside a token that every test of the store takes for no
  token.
\<close>

theorem partial_session_counterexample:
  "reach unrestricted unrestricted unrestricted quote unquote (updateUser quote ''ann'' fresh_world) \<and>
   \<not> no_partial_session (updateUser quote ''ann'' fresh_world) \<and>
   reach unrestricted unrestricted unrestricted quote unquote
     (token_only_world\<lparr>w_auth := AuthProvider_initial\<lparr>auth_loading := False\<rparr>\<rparr>) \<and>
   \<not> no_partial_session
     (token_only_world\<lparr>w_auth := AuthProvider_initial\<lparr>auth_loading := False\<rparr>\<rparr>) \<and>
   reach unrestricted unrestricted unrestricted quote unquote (login quote [] ''ann'' fresh_world) \<and>
   \<not> no_partial_session (login quote [] ''ann'' fresh_world)"
proof -
  have f: "reach unrestricted unrestricted unrestricted quote unquote fresh_world"
    by (rule reach_initial) (simp_all add: unrestricted_def fresh_world_def)
  then have "reach unrestricted unrestricted unrestricted quote unquote
      (updateUser quote ''ann'' fresh_world)"
    by (rule reach_updateUser) (simp add: unrestricted_def)
  moreover from f have "reach unrestricted unrestricted unrestricted quote unquote
      (login quote [] ''ann'' fresh_world)"
    by (rule reach_login) (simp add: unrestricted_def)
  moreover have "AuthProvider_mount unquote token_only_world =
      Inr (token_only_world\<lparr>w_auth := AuthProvider_initial\<lparr>auth_loading := False\<rparr>\<rparr>)"
    by (simp add: AuthProvider_mount_def token_only_world_def fresh_world_def getItem_def
        Let_def)
  then have "reach unrestricted unrestricted unrestricted quote unquote
      (token_only_world\<lparr>w_auth := AuthProvider_initial\<lparr>auth_loading := False\<rparr>\<rparr>)"
    by (rule reach_mount [rotated 2])
       (simp_all add: unrestricted_def fresh_world_def token_only_world_def)
  moreover have "\<not> no_partial_session (updateUser quote ''ann'' fresh_world)"
    by (simp add: no_partial_session_def updateUser_def fresh_world_def AuthProvider_initial_def
        setItem_def getItem_def truthy_def quote_def)
  moreover have "\<not> no_partial_session
      (token_only_world\<lparr>w_auth := AuthProvider_initial\<lparr>auth_loading := False\<rparr>\<rparr>)"
    by (simp add: no_partial_session_def fresh_world_def token_only_world_def
        AuthProvider_initial_def getItem_def truthy_def)
  moreover have "\<not> no_partial_session (login quote [] ''ann'' fresh_world)"
    by (simp add: no_partial_session_def login_def fresh_world_def AuthProvider_initial_def
        setItem_def getItem_def truthy_def quote_def)
  ultimately show ?thesis by simp
qed

text \<open>
  Claim C2, amended. A token counts as present when it is a non-empty string, which is
  the store's own test. Start the store on a \<open>localStorage\<close> that holds no token and no
  user, or a token together with a serialised user record. Then in every state reached by
  mounting, \<open>login\<close> with a non-empty token and a user record, \<open>logout\<close>, and
  \<open>updateUser\<close> with a user record called while \<open>isAuthenticated\<close> is true, the token
  and the user are both present or both absent, in memory and in \<open>localStorage\<close>. This
  is under two assumptions on the serialisation: \<open>JSON.parse\<close> gives back the record
  that \<open>JSON.stringify\<close> serialised, and no record is serialised to the empty string.
  In every state whatsoever, \<open>updateUser\<close> leaves the token as it is, in memory and in
  \<open>localStorage\<close>, and sets and stores the user: it neither checks nor touches the
  token.
\<close>

theorem reach_no_partial_session:
  assumes "reach (written_by_store stringify) non_empty isAuthenticated stringify parse w"
    and "\<And>u. parse (stringify u) = Inr (Some u)"
    and "\<And>u. stringify u \<noteq> []"
  shows "no_partial_session w \<and>
         auth_token (w_auth (updateUser stringify userData w')) = auth_token (w_auth w') \<and>
         getItem (w_storage (updateUser stringify userData w')) ''token'' =
           getItem (w_storage w') ''token'' \<and>
         auth_user (w_auth (updateUser stringify userData w')) = Some userData \<and>
         getItem (w_storage (updateUser stringify userData w')) ''user'' =
           Some (stringify userData)"
  using session_invariant [OF assms]
  by (simp add: updateUser_def setItem_def getItem_def)

theorem reach_no_partial_session_witness:
  "AuthProvider_mount unquote stored_world = Inr restored_world \<and>
   no_partial_session (updateUser quote ''bob'' restored_world) \<and>
   no_partial_session (login quote ''t1'' ''cy'' (logout (updateUser quote ''bob'' restored_world))) \<and>
   auth_token (w_auth (updateUser quote ''bob'' fresh_world)) = None \<and>
   auth_user (w_auth (updateUser quote ''bob'' fresh_world)) = Some ''bob''"
proof -
  have m: "AuthProvider_mount unquote stored_world = Inr restored_world"
    by (simp add: AuthProvider_mount_def stored_world_def restored_world_def fresh_world_def
        AuthProvider_initial_def getItem_def truthy_def quote_def unquote_def Let_def)
  then have r: "reach (written_by_store quote) non_empty isAuthenticated quote unquote restored_world"
    by (rule reach_mount [rotated 2])
       (auto simp: stored_world_def fresh_world_def written_by_store_def getItem_def truthy_def)
  have "isAuthenticated restored_world"
    by (simp add: isAuthenticated_def truthy_def restored_world_def)
  with r have u: "reach (written_by_store quote) non_empty isAuthenticated quote unquote
      (updateUser quote ''bob'' restored_world)"
    by (rule reach_updateUser)
  then have "reach (written_by_store quote) non_empty isAuthenticated quote unquote
      (logout (updateUser quote ''bob'' restored_world))"
    by (rule reach_logout)
  then have l: "reach (written_by_store quote) non_empty isAuthenticated quote unquote
      (login quote ''t1'' ''cy'' (logout (updateUser quote ''bob'' restored_world)))"
    by (rule reach_login) (simp add: non_empty_def)
  show ?thesis
    using m reach_no_partial_session [OF l unquote_quote quote_not_Nil, of "''bob''" fresh_world]
      reach_no_partial_session [OF u unquote_quote quote_not_Nil, of "''bob''" fresh_world]
    by (simp add: fresh_world_def AuthProvider_initial_def)
qed

section \<open>The session store: login and logout\<close>

text \<open>
  Claim C4, as stated, fails for the empty token: \<open>login\<close> stores it, but
  \<open>isAuthenticated\<close> is \<open>!!token\<close>, and the empty string is falsy.
\<close>

theorem login_empty_token_counterexample:
  "\<not> isAuthenticated (login quote [] ''ann'' fresh_world) \<and>
   w_storage (login quote [] ''ann'' fresh_world) ''token'' = Some []"
  by (simp add: isAuthenticated_def truthy_def login_def setItem_def)

text \<open>
  Claim C4, amended. After \<open>login(token, user)\<close>, \<open>isAuthenticated\<close> is true exactly
  when the token is not the empty string, and \<open>localStorage\<close> holds the token under
  \<open>token\<close> and the serialised user under \<open>user\<close>; after \<open>logout()\<close>, from any state,
  \<open>isAuthenticated\<close> is false and both keys are absent.
\<close>

theorem login_logout_session:
  "isAuthenticated (login stringify tok userData w) = (tok \<noteq> []) \<and>
   w_storage (login stringify tok userData w) ''token'' = Some tok \<and>
   w_storage (login stringify tok userData w) ''user'' = Some (stringify userData) \<and>
   \<not> isAuthenticated (logout w') \<and>
   w_storage (logout w') ''token'' = None \<and>
   w_storage (logout w') ''user'' = None"
  by (simp add: isAuthenticated_def truthy_def login_def logout_def setItem_def removeItem_def)

theorem login_logout_session_witness:
  "isAuthenticated (login quote ''t1'' ''ann'' fresh_world) \<and>
   w_storage (login quote ''t1'' ''ann'' fresh_world) ''token'' = Some ''t1'' \<and>
   w_storage (login quote ''t1'' ''ann'' fresh_world) ''user'' = Some (quote ''ann'') \<and>
   \<not> isAuthenticated (logout sample_world) \<and>
   w_storage (logout sample_world) ''token'' = None \<and>
   w_storage (logout sample_world) ''user'' = None"
  using login_logout_session [of quote "''t1''" "''ann''" fresh_world sample_world]
  by simp

section \<open>The email pattern\<close>

lemma rx_domain_sound:
  "rx_domain cs \<Longrightarrow>
   \<exists>b d post. cs = b @ ''.'' @ d # post \<and> (\<forall>x\<in>set b. \<not> is_space x) \<and> \<not> is_space d"
proof (induction cs rule: rx_domain.induct)
  case 1
  then show ?case by simp
next
  case (2 c)
  then show ?case by simp
next
  case (3 c d cs)
  show ?case
  proof (cases "c = CHR ''.'' \<and> \<not> is_space d")
    case True
    then have "c # d # cs = [] @ ''.'' @ d # cs \<and> (\<forall>x\<in>set []. \<not> is_space x) \<and> \<not> is_space d"
      by simp
    then show ?thesis by blast
  next
    case False
    with 3 have ns: "\<not> is_space c" and r: "rx_domain (d # cs)"
      by (auto split: if_splits)
    from 3 False ns r obtain b e post where
      e: "d # cs = b @ ''.'' @ e # post" "\<forall>x\<in>set b. \<not> is_space x" "\<not> is_space e"
      by auto
    then have "c # d # cs = (c # b) @ ''.'' @ e # post \<and> (\<forall>x\<in>set (c # b). \<not> is_space x) \<and> \<not> is_space e"
      using ns by simp
    then show ?thesis by blast
  qed
qed

lemma rx_domain_complete:
  "\<forall>x\<in>set b. \<not> is_space x \<Longrightarrow> \<not> is_space d \<Longrightarrow> rx_domain (b @ ''.'' @ d # post)"
proof (induction b)
  case Nil
  then show ?case by simp
next
  case (Cons x b)
  then have "rx_domain (b @ ''.'' @ d # post)" by simp
  moreover from Cons have "\<not> is_space x" by simp
  moreover obtain y ys where "b @ ''.'' @ d # post = y # ys"
    by (cases b) auto
  ultimately show ?case by simp
qed

lemma email_regex_test_sound:
  "email_regex_test s \<Longrightarrow>
   \<exists>pre a t. s = pre @ a # CHR ''@'' # t \<and> \<not> is_space a \<and> rx_after_at t"
proof (induction s rule: email_regex_test.induct)
  case (1 a b cs)
  show ?case
  proof (cases "\<not> is_space a \<and> b = CHR ''@'' \<and> rx_after_at cs")
    case True
    then have "a # b # cs = [] @ a # CHR ''@'' # cs \<and> \<not> is_space a \<and> rx_after_at cs" by simp
    then show ?thesis by blast
  next
    case False
    with 1 obtain pre a' t where
      "b # cs = pre @ a' # CHR ''@'' # t" "\<not> is_space a'" "rx_after_at t"
      by (auto split: if_splits)
    then have "a # b # cs = (a # pre) @ a' # CHR ''@'' # t \<and> \<not> is_space a' \<and> rx_after_at t"
      by simp
    then show ?thesis by blast
  qed
qed simp_all

lemma email_regex_test_complete:
  "\<not> is_space a \<Longrightarrow> rx_after_at t \<Longrightarrow> email_regex_test (pre @ a # CHR ''@'' # t)"
proof (induction pre)
  case Nil
  then show ?case by simp
next
  case (Cons x pre)
  then have "email_regex_test (pre @ a # CHR ''@'' # t)" by simp
  moreover obtain y ys where "pre @ a # CHR ''@'' # t = y # ys"
    by (cases pre) auto
  ultimately show ?case by simp
qed

lemma email_regex_test_iff: "email_regex_test s = matches_email_pattern s"
proof
  assume "email_regex_test s"
  then obtain pre a t where s: "s = pre @ a # CHR ''@'' # t" and a: "\<not> is_space a"
    and t: "rx_after_at t"
    using email_regex_test_sound by blast
  from t obtain x cs where t': "t = x # cs" and x: "\<not> is_space x" and cs: "rx_domain cs"
    by (cases t) (auto split: if_splits)
  from rx_domain_sound [OF cs] obtain b d post where
    d: "cs = b @ ''.'' @ d # post" "\<forall>x\<in>set b. \<not> is_space x" "\<not> is_space d"
    by blast
  have "s = pre @ [a] @ ''@'' @ (x # b) @ ''.'' @ [d] @ post"
    using s t' d by simp
  moreover have "\<forall>y\<in>set ([a] @ (x # b) @ [d]). \<not> is_space y"
    using a x d by simp
  ultimately show "matches_email_pattern s"
    unfolding matches_email_pattern_def by blast
next
  assume "matches_email_pattern s"
  then obtain pre a b c post where
    s: "s = pre @ a @ ''@'' @ b @ ''.'' @ c @ post" and ne: "a \<noteq> []" "b \<noteq> []" "c \<noteq> []"
    and ns: "\<forall>x\<in>set (a @ b @ c). \<not> is_space x"
    unfolding matches_email_pattern_def by blast
  from ne obtain a' z where a: "a = a' @ [z]" by (metis rev_exhaust)
  from ne obtain x b' where b: "b = x # b'" by (cases b) auto
  from ne obtain d c' where c: "c = d # c'" by (cases c) auto
  have "rx_domain (b' @ ''.'' @ d # (c' @ post))"
    using ns b c by (intro rx_domain_complete) simp_all
  then have "rx_after_at (b @ ''.'' @ c @ post)"
    using ns b c by simp
  then have "email_regex_test ((pre @ a') @ z # CHR ''@'' # (b @ ''.'' @ c @ post))"
    using ns a by (intro email_regex_test_complete) simp_all
  then show "email_regex_test s"
    using s a by simp
qed

text \<open>
  The matcher \<open>email_regex_test\<close> decides exactly the pattern \<open>/\S+@\S+\.\S+/\<close>,
  searched anywhere in the string.
\<close>

theorem email_regex_test_meaning: "email_regex_test s = matches_email_pattern s"
  by (rule email_regex_test_iff)

theorem email_regex_test_meaning_witness:
  "matches_email_pattern ''ann@example.com'' \<and> \<not> matches_email_pattern ''a@b'' \<and>
   \<not> matches_email_pattern ''ann @example.com''"
  using email_regex_test_meaning [of "''ann@example.com''"] email_regex_test_meaning [of "''a@b''"]
    email_regex_test_meaning [of "''ann @example.com''"]
  by (simp add: is_space_def)

text \<open>
  Every value of the shape \<open>local@domain.tld\<close> passes the test of the code; the
  converse fails, since the test also accepts a value that only contains such a piece.
\<close>

theorem spec_email_shape_accepted: "spec_email_shape s \<Longrightarrow> email_regex_test s"
proof -
  assume "spec_email_shape s"
  then obtain a b c where s: "s = a @ ''@'' @ b @ ''.'' @ c" and ne: "a \<noteq> []" "b \<noteq> []" "c \<noteq> []"
    and ns: "\<forall>x\<in>set s. \<not> is_space x"
    unfolding spec_email_shape_def by blast
  have "s = [] @ a @ ''@'' @ b @ ''.'' @ c @ []" using s by simp
  moreover have "\<forall>x\<in>set (a @ b @ c). \<not> is_space x" using ns s by auto
  ultimately have "matches_email_pattern s"
    unfolding matches_email_pattern_def using ne by blast
  then show ?thesis by (simp add: email_regex_test_iff)
qed

theorem spec_email_shape_accepted_witness:
  "spec_email_shape ''ann@example.com'' \<and> email_regex_test ''ann@example.com''"
proof -
  have "''ann@example.com'' = ''ann'' @ ''@'' @ ''example'' @ ''.'' @ ''com''" by simp
  moreover have "\<forall>x\<in>set ''ann@example.com''. \<not> is_space x" by (simp add: is_space_def)
  ultimately have h: "spec_email_shape ''ann@example.com''"
    unfolding spec_email_shape_def by blast
  from h spec_email_shape_accepted [OF h] show ?thesis by simp
qed

section \<open>Validation of the login and signup forms\<close>

text \<open>What \<open>validate\<close> reports for each field, and what a blocked submission leaves.\<close>

lemma trim_Nil_iff: "trim s = [] \<longleftrightarrow> (\<forall>c\<in>set s. is_space c)"
proof -
  have "(\<forall>c\<in>set (dropWhile is_space s). is_space c) \<longleftrightarrow> (\<forall>c\<in>set s. is_space c)"
  proof
    assume a: "\<forall>c\<in>set (dropWhile is_space s). is_space c"
    have "dropWhile is_space s = []"
    proof (rule ccontr)
      assume n: "dropWhile is_space s \<noteq> []"
      then have "\<not> is_space (hd (dropWhile is_space s))" by (rule hd_dropWhile)
      with a n show False by simp
    qed
    then show "\<forall>c\<in>set s. is_space c" by (simp add: dropWhile_eq_Nil_conv)
  next
    assume "\<forall>c\<in>set s. is_space c"
    then show "\<forall>c\<in>set (dropWhile is_space s). is_space c"
      by (meson set_dropWhileD)
  qed
  then show ?thesis by (simp add: trim_def dropWhile_eq_Nil_conv)
qed

lemma email_regex_test_nonspace: "email_regex_test s \<Longrightarrow> \<exists>c\<in>set s. \<not> is_space c"
  by (induction s rule: email_regex_test.induct) (auto split: if_splits)

lemma email_regex_test_not_blank: "email_regex_test s \<Longrightarrow> trim s \<noteq> []"
  using email_regex_test_nonspace by (auto simp: trim_Nil_iff)

lemma map_of_Some_not_Nil: "map_of xs k = Some y \<Longrightarrow> xs \<noteq> []"
  by auto







lemma Signup_validate_password:
  "map_of (Signup_validate f) ''password'' =
     (if signup_password f = [] then Some ''Password is required''
      else if length (signup_password f) < 6 then Some ''Password must be at least 6 characters''
      else None)"
  by (simp add: Signup_validate_def)

lemma Signup_validate_confirmPassword:
  "map_of (Signup_validate f) ''confirmPassword'' =
     (if signup_confirmPassword f = [] then Some ''Please confirm your password''
      else if signup_password f \<noteq> signup_confirmPassword f then Some ''Passwords do not match''
      else None)"
  by (simp add: Signup_validate_def)

lemma Signup_handleSubmit_invalid:
  "Signup_validate (signup_form v) \<noteq> [] \<Longrightarrow>
   Signup_handleSubmit stringify net (v, w) =
     (v\<lparr>signup_apiError := [], signup_errors := Signup_validate (signup_form v)\<rparr>, w)"
  by (simp add: Signup_handleSubmit_def Let_def)

lemma Signup_handleSubmit_errors:
  "signup_errors (fst (Signup_handleSubmit stringify net (v, w))) = Signup_validate (signup_form v)"
  by (simp add: Signup_handleSubmit_def Let_def split: prod.splits sum.splits)




section \<open>Login: an accepted submission\<close>

text \<open>
  A login submission that passes validation and that the server accepts sends one
  request, hands the token and the user of the response to the session store, and
  navigates to \<open>/dashboard\<close>; the view ends with no error and \<open>loading\<close> false.
\<close>

theorem Login_handleSubmit_accepted:
  assumes "Login_validate (login_form v) = []"
    and "net (login_request (w_storage w) (login_form v)) = Inr (tok, user)"
  shows "Login_handleSubmit stringify net (v, w) =
           (v\<lparr>login_apiError := [], login_errors := [], login_loading := False\<rparr>,
            (login stringify tok user
               (w\<lparr>w_sent := w_sent w @ [login_request (w_storage w) (login_form v)]\<rparr>))
              \<lparr>w_route := ''/dashboard''\<rparr>)"
  using assms
  by (simp add: Login_handleSubmit_def authAPI_login_def api_send_def login_request_def Let_def)

theorem Login_handleSubmit_accepted_witness:
  "isAuthenticated (snd (Login_handleSubmit quote accept_auth (login_view0 good_login, fresh_world))) \<and>
   w_route (snd (Login_handleSubmit quote accept_auth (login_view0 good_login, fresh_world))) =
     ''/dashboard'' \<and>
   map req_url (w_sent (snd (Login_handleSubmit quote accept_auth (login_view0 good_login, fresh_world)))) =
     [''/auth/login'']"
proof -
  have v: "Login_validate (login_form (login_view0 good_login)) = []"
    by (simp add: Login_validate_def login_view0_def good_login_def trim_def is_space_def)
  have n: "accept_auth (login_request (w_storage fresh_world) (login_form (login_view0 good_login))) =
      Inr (''t1'', ''ann'')"
    by (simp add: accept_auth_def)
  show ?thesis
    unfolding Login_handleSubmit_accepted [where net = accept_auth, OF v n]
    by (simp add: isAuthenticated_def truthy_def login_def login_request_def
        request_interceptor_def fresh_world_def getItem_def base_config_def)
qed

section \<open>Signup: the password confirmation\<close>

text \<open>
  Claim C7. When the password and its confirmation differ, the confirmation field gets
  an error (\<open>Please confirm your password\<close> when the confirmation is empty,
  \<open>Passwords do not match\<close> otherwise) and the submission changes nothing outside
  the view: no signup request is sent.
\<close>

theorem password_mismatch_blocked:
  assumes "signup_password (signup_form v) \<noteq> signup_confirmPassword (signup_form v)"
  shows "map_of (signup_errors (fst (Signup_handleSubmit stringify net (v, w)))) ''confirmPassword'' =
           Some (if signup_confirmPassword (signup_form v) = [] then ''Please confirm your password''
                 else ''Passwords do not match'') \<and>
         snd (Signup_handleSubmit stringify net (v, w)) = w"
proof -
  have c: "map_of (Signup_validate (signup_form v)) ''confirmPassword'' =
      Some (if signup_confirmPassword (signup_form v) = [] then ''Please confirm your password''
            else ''Passwords do not match'')"
    using assms by (simp add: Signup_validate_confirmPassword)
  show ?thesis
    by (simp add: Signup_handleSubmit_errors c Signup_handleSubmit_invalid [OF map_of_Some_not_Nil [OF c]])
qed

theorem password_mismatch_blocked_witness:
  "map_of (signup_errors (fst (Signup_handleSubmit quote accept_auth (signup_view0 mismatch_signup, fresh_world))))
     ''confirmPassword'' = Some ''Passwords do not match'' \<and>
   snd (Signup_handleSubmit quote accept_auth (signup_view0 mismatch_signup, fresh_world)) = fresh_world \<and>
   map_of (signup_errors (fst (Signup_handleSubmit quote accept_auth (signup_view0 unconfirmed_signup, fresh_world))))
     ''confirmPassword'' = Some ''Please confirm your password'' \<and>
   snd (Signup_handleSubmit quote accept_auth (signup_view0 unconfirmed_signup, fresh_world)) = fresh_world"
proof -
  have m: "signup_password (signup_form (signup_view0 mismatch_signup)) \<noteq>
      signup_confirmPassword (signup_form (signup_view0 mismatch_signup))"
    and m': "signup_confirmPassword (signup_form (signup_view0 mismatch_signup)) \<noteq> []"
    by (simp_all add: signup_view0_def mismatch_signup_def good_signup_def)
  have u: "signup_password (signup_form (signup_view0 unconfirmed_signup)) \<noteq>
      signup_confirmPassword (signup_form (signup_view0 unconfirmed_signup))"
    and u': "signup_confirmPassword (signup_form (signup_view0 unconfirmed_signup)) = []"
    by (simp_all add: signup_view0_def unconfirmed_signup_def good_signup_def)
  show ?thesis
    using password_mismatch_blocked [OF m, of quote accept_auth fresh_world]
      password_mismatch_blocked [OF u, of quote accept_auth fresh_world] m' u'
    by simp
qed

section \<open>Signup: the request body\<close>

lemma req_data_request_interceptor [simp]:
  "req_data (request_interceptor st config) = req_data config"
  by (simp add: request_interceptor_def split: option.splits)

lemma w_sent_api_send:
  "w_sent (snd (api_send net config w)) = w_sent w @ [request_interceptor (w_storage w) config]"
  by (simp add: api_send_def response_rejected_def Let_def split: sum.splits option.splits)

lemma w_sent_Signup_handleSubmit:
  assumes "Signup_validate (signup_form v) = []"
  shows "w_sent (snd (Signup_handleSubmit stringify net (v, w))) =
         w_sent w @ [request_interceptor (w_storage w)
           ((base_config POST ''/auth/signup'')
              \<lparr>req_data := rest_without ''confirmPassword'' (signup_entries (signup_form v))\<rparr>)]"
proof -
  let ?c = "(base_config POST ''/auth/signup'')
              \<lparr>req_data := rest_without ''confirmPassword'' (signup_entries (signup_form v))\<rparr>"
  have "w_sent (snd (Signup_handleSubmit stringify net (v, w))) = w_sent (snd (api_send net ?c w))"
    using assms
    by (simp add: Signup_handleSubmit_def authAPI_signup_def Let_def login_def
        split: prod.splits sum.splits)
  then show ?thesis by (simp add: w_sent_api_send)
qed

text \<open>
  Claim C8. A signup submission that passes validation sends exactly one request, a POST
  to \<open>/auth/signup\<close> whose body is the name, the email and the password of the form,
  in that order: it has no \<open>confirmPassword\<close> field, and every other field of the
  form data is in it unchanged. This holds whether the server accepts or rejects.
\<close>

theorem signup_request_body:
  assumes "Signup_validate (signup_form v) = []"
  shows "w_sent (snd (Signup_handleSubmit stringify net (v, w))) =
           w_sent w @ [request_interceptor (w_storage w)
             ((base_config POST ''/auth/signup'')
                \<lparr>req_data := [(''name'', signup_name (signup_form v)),
                              (''email'', signup_email (signup_form v)),
                              (''password'', signup_password (signup_form v))]\<rparr>)] \<and>
         map_of (req_data (last (w_sent (snd (Signup_handleSubmit stringify net (v, w))))))
           ''confirmPassword'' = None \<and>
         (\<forall>k. k \<noteq> ''confirmPassword'' \<longrightarrow>
            map_of (req_data (last (w_sent (snd (Signup_handleSubmit stringify net (v, w)))))) k =
            map_of (signup_entries (signup_form v)) k)"
  by (simp add: w_sent_Signup_handleSubmit [OF assms] rest_without_def signup_entries_def)

theorem signup_request_body_witness:
  "w_sent (snd (Signup_handleSubmit quote accept_auth (signup_view0 good_signup, fresh_world))) =
     [\<lparr>req_method = POST, req_url = ''/auth/signup'', req_params = [],
       req_data = [(''name'', ''Ann''), (''email'', ''ann@example.com''), (''password'', ''secret1'')],
       req_headers = [(''Content-Type'', ''application/json'')]\<rparr>]"
proof -
  have "Signup_validate (signup_form (signup_view0 good_signup)) = []"
    by (simp add: Signup_validate_def signup_view0_def good_signup_def trim_def is_space_def)
  from signup_request_body [OF this, of quote accept_auth fresh_world] show ?thesis
    by (simp add: signup_view0_def good_signup_def fresh_world_def request_interceptor_def
        getItem_def base_config_def)
qed

section \<open>Signup: the example of the short password\<close>

text \<open>
  Claim C9. Submitting the signup form with password \<open>abc12\<close> and confirmation
  \<open>abc12\<close> sets the password error to \<open>Password must be at least 6 characters\<close>
  and sends no request, whatever the name and the email are; with a name that is not
  blank and an email that matches the pattern, this is the only error.
\<close>

theorem signup_short_password_example:
  assumes "signup_password (signup_form v) = ''abc12''"
    and "signup_confirmPassword (signup_form v) = ''abc12''"
  shows "map_of (signup_errors (fst (Signup_handleSubmit stringify net (v, w)))) ''password'' =
           Some ''Password must be at least 6 characters'' \<and>
         snd (Signup_handleSubmit stringify net (v, w)) = w \<and>
         (trim (signup_name (signup_form v)) \<noteq> [] \<and>
          email_regex_test (signup_email (signup_form v)) \<longrightarrow>
            signup_errors (fst (Signup_handleSubmit stringify net (v, w))) =
              [(''password'', ''Password must be at least 6 characters'')])"
proof -
  have p: "map_of (Signup_validate (signup_form v)) ''password'' =
      Some ''Password must be at least 6 characters''"
    using assms by (simp add: Signup_validate_password)
  have e: "trim (signup_name (signup_form v)) \<noteq> [] \<Longrightarrow>
      email_regex_test (signup_email (signup_form v)) \<Longrightarrow>
      Signup_validate (signup_form v) = [(''password'', ''Password must be at least 6 characters'')]"
    using assms by (simp add: Signup_validate_def email_regex_test_not_blank)
  show ?thesis
    using e
    by (simp add: Signup_handleSubmit_errors p Signup_handleSubmit_invalid [OF map_of_Some_not_Nil [OF p]])
qed

theorem signup_short_password_example_witness:
  "signup_errors (fst (Signup_handleSubmit quote accept_auth (signup_view0 short_signup, fresh_world))) =
     [(''password'', ''Password must be at least 6 characters'')] \<and>
   snd (Signup_handleSubmit quote accept_auth (signup_view0 short_signup, fresh_world)) = fresh_world"
proof -
  have f: "signup_form (signup_view0 short_signup) = short_signup"
    by (simp add: signup_view0_def)
  have h: "signup_password short_signup = ''abc12''" "signup_confirmPassword short_signup = ''abc12''"
    "trim (signup_name short_signup) \<noteq> []" "email_regex_test (signup_email short_signup)"
    by (simp_all add: short_signup_def good_signup_def trim_def is_space_def)
  from signup_short_password_example [of "signup_view0 short_signup" quote accept_auth fresh_world]
  show ?thesis
    unfolding f using h by simp
qed

section \<open>The tasks view: the list request\<close>

lemma w_sent_fetchTasks:
  "w_sent (snd (fetchTasks net (v, w))) =
     w_sent w @ [request_interceptor (w_storage w)
       ((base_config GET ''/tasks'')\<lparr>req_params := fetchTasks_params (searchText v) (statusFilter v)\<rparr>)]"
proof -
  let ?c = "(base_config GET ''/tasks'')\<lparr>req_params := fetchTasks_params (searchText v) (statusFilter v)\<rparr>"
  have "w_sent (snd (fetchTasks net (v, w))) = w_sent (snd (api_send net ?c w))"
    by (simp add: fetchTasks_def tasksAPI_getAll_def Let_def
        split: prod.splits sum.splits tasks_data.splits)
  then show ?thesis by (simp add: w_sent_api_send)
qed

lemma req_params_request_interceptor [simp]:
  "req_params (request_interceptor st config) = req_params config"
  by (simp add: request_interceptor_def split: option.splits)

lemma fetchTasks_params_search:
  "map_of (fetchTasks_params s f) ''search'' = (if s = [] then None else Some s)"
  by (simp add: fetchTasks_params_def)

lemma fetchTasks_params_status:
  "map_of (fetchTasks_params s f) ''status'' = (if f = [] then None else Some f)"
  by (simp add: fetchTasks_params_def)

(* new *)

lemma req_params_list_request: "req_params (list_request st s f) = fetchTasks_params s f"
  by (simp add: list_request_def)

lemma w_sent_fetchTasks_closure:
  "w_sent (snd (fetchTasks_closure net fn (v, w))) =
     w_sent w @ [list_request (w_storage w) (fc_search fn) (fc_status fn)]"
  by (simp add: fetchTasks_closure_def Let_def w_sent_fetchTasks list_request_def)

lemma searchText_fetchTasks [simp]: "searchText (fst (fetchTasks net (v, w))) = searchText v"
  by (simp add: fetchTasks_def Let_def split: prod.splits sum.splits tasks_data.splits)

lemma statusFilter_fetchTasks [simp]: "statusFilter (fst (fetchTasks net (v, w))) = statusFilter v"
  by (simp add: fetchTasks_def Let_def split: prod.splits sum.splits tasks_data.splits)

lemma fetchTasks_closure_current:
  "fc_search fn = searchText v \<Longrightarrow> fc_status fn = statusFilter v \<Longrightarrow>
   fetchTasks_closure net fn (v, w) = fetchTasks net (v, w)"
  by (simp add: fetchTasks_closure_def Let_def prod_eq_iff)

lemma fields_fetchTasks_closure [simp]:
  "searchText (fst (fetchTasks_closure net fn (v, w))) = searchText v"
  "statusFilter (fst (fetchTasks_closure net fn (v, w))) = statusFilter v"
  by (simp_all add: fetchTasks_closure_def Let_def)

lemma fields_Tasks_render [simp]:
  "searchText (fst (snd (Tasks_render net (h, v, w)))) = searchText v"
  "statusFilter (fst (snd (Tasks_render net (h, v, w)))) = statusFilter v"
  by (simp_all add: Tasks_render_def Let_def)

text \<open>
  A render of a view whose search text or status filter differs from the render before
  runs the effect, once; a render in which both are the same does not; the first render
  does.
\<close>

lemma Tasks_render_changed:
  assumes "rendered h v0" and "(searchText v, statusFilter v) \<noteq> (searchText v0, statusFilter v0)"
  shows "w_sent (snd (snd (Tasks_render net (h, v, w)))) =
           w_sent w @ [list_request (w_storage w) (searchText v) (statusFilter v)]"
    and "rendered (fst (Tasks_render net (h, v, w))) (fst (snd (Tasks_render net (h, v, w))))"
  using assms
  by (auto simp: Tasks_render_def rendered_def useCallback_def useEffect_due_def Let_def
      w_sent_fetchTasks_closure split: option.splits prod.splits)

lemma Tasks_render_unchanged:
  assumes "rendered h v0" and "(searchText v, statusFilter v) = (searchText v0, statusFilter v0)"
  shows "w_sent (snd (snd (Tasks_render net (h, v, w)))) = w_sent w"
    and "rendered (fst (Tasks_render net (h, v, w))) (fst (snd (Tasks_render net (h, v, w))))"
  using assms
  by (auto simp: Tasks_render_def rendered_def useCallback_def useEffect_due_def Let_def
      split: option.splits prod.splits)

lemma Tasks_mount_rendered:
  "w_sent (snd (snd (Tasks_mount net w))) = w_sent w @ [list_request (w_storage w) [] []]"
  "rendered (fst (Tasks_mount net w)) (fst (snd (Tasks_mount net w)))"
  by (simp_all add: Tasks_mount_def Tasks_render_def rendered_def useCallback_def
      useEffect_due_def hooks_initial_def Let_def w_sent_fetchTasks_closure Tasks_initial_def)

text \<open>
  Claim C3, as stated, fails: \<open>fetchTasks\<close> adds \<open>search\<close> and \<open>status\<close> only when
  the value is truthy, so the first fetch of a freshly mounted view, whose search text and
  filter are empty, carries no query parameter at all.
\<close>

theorem fetch_without_parameters_counterexample:
  "w_sent (snd (snd (Tasks_mount accept_tasks fresh_world))) =
     [\<lparr>req_method = GET, req_url = ''/tasks'', req_params = [],
       req_data = [], req_headers = [(''Content-Type'', ''application/json'')]\<rparr>] \<and>
   map_of (req_params (last (w_sent (snd (snd (Tasks_mount accept_tasks fresh_world)))))) ''search'' = None \<and>
   map_of (req_params (last (w_sent (snd (snd (Tasks_mount accept_tasks fresh_world)))))) ''status'' = None"
  by (simp add: Tasks_mount_rendered list_request_def fresh_world_def
      request_interceptor_def getItem_def base_config_def fetchTasks_params_def)

text \<open>
  Claim C3, amended. Every list fetch sends exactly one request, whose query parameters
  come from the search text and the status filter that the running instance of
  \<open>fetchTasks\<close> captured, whatever the view holds by then: \<open>search\<close> when the text
  is not empty, \<open>status\<close> when the filter is not empty, and no key for an empty value.
  The instance the effect runs is the one of the latest render, so the fetch on mount
  carries the initial values and the fetch after a change the new ones. After a render
  in which the search text or the status filter differs from the render before, the
  effect issues exactly one list fetch; after a render in which neither differs it
  issues none. The hooks are then again as a render leaves them, so this holds for each
  change in turn.
\<close>

theorem fetch_query_parameters:
  assumes "rendered h v"
  shows "w_sent (snd (fetchTasks_closure net fn (v', w'))) =
           w_sent w' @ [list_request (w_storage w') (fc_search fn) (fc_status fn)] \<and>
         map_of (req_params (list_request st s f)) ''search'' = (if s = [] then None else Some s) \<and>
         map_of (req_params (list_request st s f)) ''status'' = (if f = [] then None else Some f) \<and>
         w_sent (snd (snd (Tasks_mount net w))) = w_sent w @ [list_request (w_storage w) [] []] \<and>
         rendered (fst (Tasks_mount net w)) (fst (snd (Tasks_mount net w))) \<and>
         w_sent (snd (snd (searchText_onChange net val (h, v, w)))) =
           w_sent w @ (if val = searchText v then []
                       else [list_request (w_storage w) val (statusFilter v)]) \<and>
         rendered (fst (searchText_onChange net val (h, v, w)))
           (fst (snd (searchText_onChange net val (h, v, w)))) \<and>
         searchText (fst (snd (searchText_onChange net val (h, v, w)))) = val \<and>
         statusFilter (fst (snd (searchText_onChange net val (h, v, w)))) = statusFilter v \<and>
         w_sent (snd (snd (statusFilter_onChange net val (h, v, w)))) =
           w_sent w @ (if val = statusFilter v then []
                       else [list_request (w_storage w) (searchText v) val]) \<and>
         rendered (fst (statusFilter_onChange net val (h, v, w)))
           (fst (snd (statusFilter_onChange net val (h, v, w)))) \<and>
         searchText (fst (snd (statusFilter_onChange net val (h, v, w)))) = searchText v \<and>
         statusFilter (fst (snd (statusFilter_onChange net val (h, v, w)))) = val"
proof -
  let ?vs = "v\<lparr>searchText := val\<rparr>" and ?vf = "v\<lparr>statusFilter := val\<rparr>"
  have s: "w_sent (snd (snd (Tasks_render net (h, ?vs, w)))) =
      w_sent w @ (if val = searchText v then []
                  else [list_request (w_storage w) val (statusFilter v)])"
  proof (cases "val = searchText v")
    case True
    then show ?thesis
      using Tasks_render_unchanged(1) [OF assms, of ?vs net w] by simp
  next
    case False
    then show ?thesis
      using Tasks_render_changed(1) [OF assms, of ?vs net w] by simp
  qed
  have f: "w_sent (snd (snd (Tasks_render net (h, ?vf, w)))) =
      w_sent w @ (if val = statusFilter v then []
                  else [list_request (w_storage w) (searchText v) val])"
  proof (cases "val = statusFilter v")
    case True
    then show ?thesis
      using Tasks_render_unchanged(1) [OF assms, of ?vf net w] by simp
  next
    case False
    then show ?thesis
      using Tasks_render_changed(1) [OF assms, of ?vf net w] by simp
  qed
  have rs: "rendered (fst (Tasks_render net (h, ?vs, w))) (fst (snd (Tasks_render net (h, ?vs, w))))"
    using Tasks_render_unchanged(2) [OF assms, of ?vs net w]
      Tasks_render_changed(2) [OF assms, of ?vs net w]
    by (cases "val = searchText v") simp_all
  have rf: "rendered (fst (Tasks_render net (h, ?vf, w))) (fst (snd (Tasks_render net (h, ?vf, w))))"
    using Tasks_render_unchanged(2) [OF assms, of ?vf net w]
      Tasks_render_changed(2) [OF assms, of ?vf net w]
    by (cases "val = statusFilter v") simp_all
  show ?thesis
    using s f rs rf
    by (simp add: searchText_onChange_def statusFilter_onChange_def w_sent_fetchTasks_closure
        Tasks_mount_rendered list_request_def fetchTasks_params_search fetchTasks_params_status)
qed

theorem fetch_query_parameters_witness:
  "map req_params (w_sent (snd (snd
      (statusFilter_onChange accept_tasks ''pending''
        (searchText_onChange accept_tasks ''milk'' (Tasks_mount accept_tasks fresh_world)))))) =
     [[], [(''search'', ''milk'')], [(''search'', ''milk''), (''status'', ''pending'')]] \<and>
   map req_params (w_sent (snd (snd
      (searchText_onChange accept_tasks [] (Tasks_mount accept_tasks fresh_world))))) = [[]] \<and>
   map req_params (w_sent (snd
      (fetchTasks_closure accept_tasks sample_closure
         (listed_view\<lparr>searchText := ''milk''\<rparr>, fresh_world)))) = [[(''search'', ''home'')]]"
proof -
  let ?m = "Tasks_mount accept_tasks fresh_world :: tasks_hooks \<times> string tasks_view \<times> string world"
  let ?s1 = "searchText_onChange accept_tasks ''milk'' ?m"
  let ?s0 = "searchText_onChange accept_tasks [] ?m"
  let ?s2 = "statusFilter_onChange accept_tasks ''pending'' ?s1"
  have r0: "rendered (fst ?m) (fst (snd ?m))"
    by (rule Tasks_mount_rendered(2))
  have m: "map req_params (w_sent (snd (snd ?m))) = [[]]"
    "searchText (fst (snd ?m)) = []" "statusFilter (fst (snd ?m)) = []"
    by (simp_all add: Tasks_mount_rendered(1) req_params_list_request fetchTasks_params_def
        fresh_world_def)
       (simp_all add: Tasks_mount_def Tasks_initial_def)
  note t1 = fetch_query_parameters [OF r0, where net = accept_tasks and val = "''milk''"
      and w = "snd (snd ?m)" and fn = sample_closure and v' = "listed_view\<lparr>searchText := ''milk''\<rparr>"
      and w' = fresh_world and st = Map.empty and s = "[]" and f = "[]"]
  note t0 = fetch_query_parameters [OF r0, where net = accept_tasks and val = "[]"
      and w = "snd (snd ?m)" and fn = sample_closure and v' = "listed_view\<lparr>searchText := ''milk''\<rparr>"
      and w' = fresh_world and st = Map.empty and s = "[]" and f = "[]"]
  have s1: "map req_params (w_sent (snd (snd ?s1))) = [[], [(''search'', ''milk'')]]"
    "rendered (fst ?s1) (fst (snd ?s1))"
    "searchText (fst (snd ?s1)) = ''milk''" "statusFilter (fst (snd ?s1)) = []"
    using t1 m by (simp_all add: req_params_list_request fetchTasks_params_def)
  have s0: "map req_params (w_sent (snd (snd ?s0))) = [[]]"
    using t0 m by simp
  have c: "map req_params (w_sent (snd (fetchTasks_closure accept_tasks sample_closure
      (listed_view\<lparr>searchText := ''milk''\<rparr>, fresh_world)))) = [[(''search'', ''home'')]]"
    using t1 by (simp add: req_params_list_request fetchTasks_params_def sample_closure_def
        fresh_world_def)
  note t2 = fetch_query_parameters [OF s1(2), where net = accept_tasks and val = "''pending''"
      and w = "snd (snd ?s1)" and fn = sample_closure and v' = "listed_view\<lparr>searchText := ''milk''\<rparr>"
      and w' = fresh_world and st = Map.empty and s = "[]" and f = "[]"]
  have s2: "map req_params (w_sent (snd (snd ?s2))) =
      [[], [(''search'', ''milk'')], [(''search'', ''milk''), (''status'', ''pending'')]]"
    using t2 s1 by (simp add: req_params_list_request fetchTasks_params_def)
  from s2 s0 c show ?thesis by simp
qed

section \<open>The tasks view: a failed list fetch\<close>

lemma fetchTasks_rejected:
  assumes "net (list_request (w_storage w) (searchText v) (statusFilter v)) = Inl error"
  shows "fst (fetchTasks net (v, w)) =
           v\<lparr>loading := False,
             view_msg := \<lparr>msg_type = ''error'',
                          msg_text = error_message error ''Failed to fetch tasks''\<rparr>\<rparr>"
  using assms
  by (simp add: fetchTasks_def tasksAPI_getAll_def api_send_def list_request_def Let_def)

lemma loading_fetchTasks: "loading (fst (fetchTasks net (v, w))) = False"
  by (simp add: fetchTasks_def Let_def split: prod.splits sum.splits tasks_data.splits)

text \<open>
  Claim C10. When the list request is rejected, the tasks held by the view stay as they
  were, the message becomes an error whose text is the message of the error's response
  data when there is one and it is not empty, and \<open>Failed to fetch tasks\<close> otherwise,
  and \<open>loading\<close> is false afterwards; \<open>loading\<close> is false after every fetch, accepted or
  rejected.
\<close>

theorem fetchTasks_failure:
  assumes "net (list_request (w_storage w) (searchText v) (statusFilter v)) = Inl error"
  shows "tasks (fst (fetchTasks net (v, w))) = tasks v \<and>
         msg_type (view_msg (fst (fetchTasks net (v, w)))) = ''error'' \<and>
         msg_text (view_msg (fst (fetchTasks net (v, w)))) =
           (case response error of
              None \<Rightarrow> ''Failed to fetch tasks''
            | Some r \<Rightarrow>
                (case data r of
                   None \<Rightarrow> ''Failed to fetch tasks''
                 | Some d \<Rightarrow>
                     (case message d of
                        None \<Rightarrow> ''Failed to fetch tasks''
                      | Some m \<Rightarrow> if m = [] then ''Failed to fetch tasks'' else m))) \<and>
         loading (fst (fetchTasks net (v, w))) = False \<and>
         loading (fst (fetchTasks net' (v', w'))) = False"
  using fetchTasks_rejected [where net = net and v = v and w = w and error = error] assms
  by (simp add: loading_fetchTasks error_message_def split: option.splits)

theorem fetchTasks_failure_witness:
  "tasks (fst (fetchTasks reject_tasks (listed_view, fresh_world))) = [''Buy milk'', ''Call home''] \<and>
   msg_text (view_msg (fst (fetchTasks reject_tasks (listed_view, fresh_world)))) = ''Database is down'' \<and>
   loading (fst (fetchTasks reject_tasks (listed_view, fresh_world))) = False \<and>
   msg_text (view_msg (fst (fetchTasks (\<lambda>r. Inl network_error) (listed_view, fresh_world)))) =
     ''Failed to fetch tasks'' \<and>
   loading (fst (fetchTasks accept_tasks (listed_view, fresh_world))) = False"
proof -
  have r: "reject_tasks (list_request (w_storage fresh_world) (searchText listed_view)
      (statusFilter listed_view)) = Inl (status_error 500 (Some ''Database is down''))"
    by (simp add: reject_tasks_def)
  have n: "(\<lambda>r. Inl network_error :: axios_error + string tasks_data)
      (list_request (w_storage fresh_world) (searchText listed_view) (statusFilter listed_view)) =
      Inl network_error"
    by simp
  show ?thesis
    using
      fetchTasks_failure [where net = reject_tasks and v = listed_view and w = fresh_world
        and error = "status_error 500 (Some ''Database is down'')" and net' = accept_tasks
        and v' = listed_view and w' = fresh_world, OF r]
      fetchTasks_failure [where net = "\<lambda>r. Inl network_error :: axios_error + string tasks_data"
        and v = listed_view and w = fresh_world and error = network_error
        and net' = accept_tasks and v' = listed_view and w' = fresh_world, OF n]
    by (simp add: status_error_def network_error_def listed_view_def)
qed

section \<open>The tasks view: deleting a task\<close>

lemma handleDelete_accepted:
  assumes "net_delete (delete_request (w_storage w) task_id) = Inr u"
  shows "snd (handleDelete True net_delete net task_id (v, w)) =
           snd (fetchTasks net
             (v\<lparr>loading := True,
                view_msg := \<lparr>msg_type = ''success'', msg_text = ''Task deleted successfully!''\<rparr>\<rparr>,
              w\<lparr>w_sent := w_sent w @ [delete_request (w_storage w) task_id]\<rparr>))"
  using assms
  by (simp add: handleDelete_def tasksAPI_delete_def api_send_def delete_request_def Let_def)

lemma handleDelete_rejected:
  assumes "net_delete (delete_request (w_storage w) task_id) = Inl error"
  shows "handleDelete True net_delete net task_id (v, w) =
           (v\<lparr>loading := False,
              view_msg := \<lparr>msg_type = ''error'',
                           msg_text = error_message error ''Failed to delete task''\<rparr>\<rparr>,
            response_rejected error (w\<lparr>w_sent := w_sent w @ [delete_request (w_storage w) task_id]\<rparr>))"
  using assms
  by (simp add: handleDelete_def tasksAPI_delete_def api_send_def delete_request_def Let_def)

lemma w_sent_response_rejected [simp]: "w_sent (response_rejected error w) = w_sent w"
  by (simp add: response_rejected_def split: option.splits)

text \<open>
  Claim C6, as stated, fails: the list is fetched again inside the \<open>try\<close> block, after
  the awaited delete, so a delete request that the server rejects is followed by no list
  request.
\<close>

theorem delete_rejected_counterexample:
  "w_sent (snd (handleDelete True reject_delete accept_tasks ''7'' (listed_view, fresh_world))) =
     [\<lparr>req_method = DELETE, req_url = ''/tasks/7'', req_params = [], req_data = [],
       req_headers = [(''Content-Type'', ''application/json'')]\<rparr>]"
  by (simp add: handleDelete_def tasksAPI_delete_def api_send_def reject_delete_def
      response_rejected_def status_error_def fresh_world_def request_interceptor_def
      getItem_def base_config_def Let_def)

text \<open>
  Claim C6, amended. When the user declines the prompt, the view and the world are
  unchanged: no request is sent. When the user confirms, exactly one delete request for
  the task id is sent; if it succeeds, it is followed by exactly one list request, and
  nothing else; if it is rejected, no list request follows and the tasks held stay as
  they were.
\<close>

theorem handleDelete_requests:
  "handleDelete False net_delete net task_id (v, w) = (v, w) \<and>
   (net_delete (delete_request (w_storage w) task_id) = Inr u \<longrightarrow>
      w_sent (snd (handleDelete True net_delete net task_id (v, w))) =
        w_sent w @ [delete_request (w_storage w) task_id,
                    list_request (w_storage w) (searchText v) (statusFilter v)]) \<and>
   (net_delete (delete_request (w_storage w) task_id) = Inl error \<longrightarrow>
      w_sent (snd (handleDelete True net_delete net task_id (v, w))) =
        w_sent w @ [delete_request (w_storage w) task_id] \<and>
      tasks (fst (handleDelete True net_delete net task_id (v, w))) = tasks v)"
proof (intro conjI impI)
  show "handleDelete False net_delete net task_id (v, w) = (v, w)"
    by (simp add: handleDelete_def)
next
  assume b: "net_delete (delete_request (w_storage w) task_id) = Inr u"
  show "w_sent (snd (handleDelete True net_delete net task_id (v, w))) =
        w_sent w @ [delete_request (w_storage w) task_id,
                    list_request (w_storage w) (searchText v) (statusFilter v)]"
    by (simp add: handleDelete_accepted [where net_delete = net_delete, OF b]
        w_sent_fetchTasks list_request_def)
next
  assume a: "net_delete (delete_request (w_storage w) task_id) = Inl error"
  show "w_sent (snd (handleDelete True net_delete net task_id (v, w))) =
        w_sent w @ [delete_request (w_storage w) task_id]"
    by (simp add: handleDelete_rejected [where net_delete = net_delete, OF a])
  show "tasks (fst (handleDelete True net_delete net task_id (v, w))) = tasks v"
    by (simp add: handleDelete_rejected [where net_delete = net_delete, OF a])
qed

theorem handleDelete_requests_witness:
  "handleDelete False accept_delete accept_tasks ''7'' (listed_view, fresh_world) =
     (listed_view, fresh_world) \<and>
   map req_method (w_sent (snd (handleDelete True accept_delete accept_tasks ''7'' (listed_view, fresh_world)))) =
     [DELETE, GET] \<and>
   map req_url (w_sent (snd (handleDelete True accept_delete accept_tasks ''7'' (listed_view, fresh_world)))) =
     [''/tasks/7'', ''/tasks''] \<and>
   map req_method (w_sent (snd (handleDelete True reject_delete accept_tasks ''7'' (listed_view, fresh_world)))) =
     [DELETE]"
  using
    handleDelete_requests [where net_delete = accept_delete and net = accept_tasks
      and task_id = "''7''" and v = listed_view and w = fresh_world and u = "()"
      and error = network_error]
    handleDelete_requests [where net_delete = reject_delete and net = accept_tasks
      and task_id = "''7''" and v = listed_view and w = fresh_world and u = "()"
      and error = "status_error 500 None"]
  by (simp add: accept_delete_def reject_delete_def fresh_world_def delete_request_def
      list_request_def request_interceptor_def getItem_def base_config_def)

end
